theory Spec2Isabelle
  imports Complex_Main "HOL-Library.Word" "HOL-Library.Sublist"
begin

section \<open>Values exchanged with the HTTP layer\<close>

text \<open>
  The backend of \<^verbatim>\<open>speech_to_text_backend.py\<close> keeps three module-level variables
  (\<^verbatim>\<open>web_online_mode\<close>, \<^verbatim>\<open>audio_chunk_queue\<close>, \<^verbatim>\<open>latest_transcription_result\<close>), three
  Flask handlers that read and write them, and one worker thread. The handlers receive
  \<^verbatim>\<open>request.json\<close>, which is whatever JSON value the client sent, so the body is modelled as
  a JSON value and not only as an object.
\<close>

type_synonym bytes = "8 word list"

text \<open>A Python float as \<^verbatim>\<open>json.loads\<close> produces it: a finite value, an infinity or NaN.\<close>

datatype pyfloat = FNum rat | FInf | FNegInf | FNaN

datatype json =
    JNull
  | JBool bool
  | JInt int
  | JFloat pyfloat
  | JStr string
  | JArr "json list"
  | JObj "(string \<times> json) list"

text \<open>
  The exceptions the code distinguishes in its \<^verbatim>\<open>except\<close> clauses; \<open>Exception\<close> stands for
  any other subclass of Python's \<^verbatim>\<open>Exception\<close>. Each carries the text that \<^verbatim>\<open>str(e)\<close> yields.
\<close>

datatype exn =
    UnknownValueError
  | RequestError string
  | CouldntDecodeError string
  | TypeError string
  | KeyError string
  | Exception string

fun str_exn :: "exn \<Rightarrow> string" where
  "str_exn UnknownValueError = []"
| "str_exn (RequestError m) = m"
| "str_exn (CouldntDecodeError m) = m"
| "str_exn (TypeError m) = m"
| "str_exn (KeyError m) = m"
| "str_exn (Exception m) = m"

text \<open>Python's \<^verbatim>\<open>bool(v)\<close>, which is also what \<^verbatim>\<open>not v\<close> and \<^verbatim>\<open>if v\<close> test.\<close>

fun truthy :: "json \<Rightarrow> bool" where
  "truthy JNull = False"
| "truthy (JBool b) = b"
| "truthy (JInt n) = (n \<noteq> 0)"
| "truthy (JFloat x) = (x \<noteq> FNum 0)"
| "truthy (JStr s) = (s \<noteq> [])"
| "truthy (JArr xs) = (xs \<noteq> [])"
| "truthy (JObj kvs) = (kvs \<noteq> [])"

text \<open>
  Python's \<^verbatim>\<open>key in data\<close> for a string key: key membership on a dict, element membership
  on a list, substring test on a string, and \<^verbatim>\<open>TypeError\<close> on everything else.
\<close>

fun contains :: "string \<Rightarrow> json \<Rightarrow> exn + bool" where
  "contains k (JObj kvs) = Inr (map_of kvs k \<noteq> None)"
| "contains k (JArr xs) = Inr (JStr k \<in> set xs)"
| "contains k (JStr s) = Inr (sublist k s)"
| "contains k _ = Inl (TypeError ''argument is not iterable'')"

text \<open>Python's \<^verbatim>\<open>data[key]\<close> for a string key: only a dict can be indexed by a string.\<close>

fun getitem :: "json \<Rightarrow> string \<Rightarrow> exn + json" where
  "getitem (JObj kvs) k = (case map_of kvs k of None \<Rightarrow> Inl (KeyError k) | Some v \<Rightarrow> Inr v)"
| "getitem (JArr xs) k = Inl (TypeError ''list indices must be integers or slices, not str'')"
| "getitem (JStr s) k = Inl (TypeError ''string indices must be integers'')"
| "getitem _ k = Inl (TypeError ''object is not subscriptable'')"

text \<open>
  What a handler gives back to Flask: a pair of body and status code as in
  \<^verbatim>\<open>return jsonify(...), 400\<close>, or an exception that leaves the handler. Flask answers an
  exception that is not an \<^verbatim>\<open>HTTPException\<close> with status 500.
\<close>

type_synonym http_result = "exn + (json \<times> nat)"

fun status_code :: "http_result \<Rightarrow> nat" where
  "status_code (Inl e) = 500"
| "status_code (Inr (body, code)) = code"

section \<open>The shared state\<close>

text \<open>
  Where the worker thread stands in \<^verbatim>\<open>speech_recognition_worker\<close>: at the top of the
  \<^verbatim>\<open>while True\<close> loop, blocked in \<^verbatim>\<open>audio_chunk_queue_cv.wait()\<close>, notified and about to test
  the loop guard again, past the lock block with \<^verbatim>\<open>current_audio_chunk\<close> set, past the test
  of line 163 and working on a chunk, or in \<^verbatim>\<open>time.sleep\<close> (milliseconds).
\<close>

datatype wpc =
    AtTop
  | Waiting
  | Notified
  | Got "bytes option"
  | Processing bytes
  | Sleeping nat

record sys =
  web_online_mode :: bool
  audio_chunk_queue :: "bytes list"
  latest_transcription_result :: json
  worker :: wpc
  stdout :: "string list"

definition idle_result :: json where
  "idle_result = JObj [(''status'', JStr ''idle''), (''text'', JStr [])]"

definition success_result :: "string \<Rightarrow> json" where
  "success_result t = JObj [(''status'', JStr ''success''), (''text'', JStr t)]"

text \<open>The module-level initialisation of lines 55 to 64, with the worker not yet started.\<close>

definition initial :: sys where
  "initial = \<lparr> web_online_mode = False, audio_chunk_queue = [],
     latest_transcription_result = idle_result, worker = AtTop, stdout = [] \<rparr>"

text \<open>
  \<^verbatim>\<open>audio_chunk_queue_cv.notify()\<close>: wakes the one thread that waits on the condition, if
  it waits; otherwise the notification has no effect.
\<close>

definition cv_notify :: "sys \<Rightarrow> sys" where
  "cv_notify s = (if worker s = Waiting then s\<lparr>worker := Notified\<rparr> else s)"

definition error_body :: "string \<Rightarrow> json" where
  "error_body m = JObj [(''status'', JStr ''error''), (''message'', JStr m)]"

definition print :: "string \<Rightarrow> sys \<Rightarrow> sys" where
  "print line s = s\<lparr>stdout := stdout s @ [line]\<rparr>"

section \<open>The Flask handlers\<close>

text \<open>
  \<^verbatim>\<open>receive_audio\<close> (lines 94 to 117). \<open>b64decode\<close> is \<^verbatim>\<open>base64.b64decode\<close> of the standard
  library, taken as a parameter: it returns the bytes or raises. Lines 100 to 104 are
  outside the \<^verbatim>\<open>try\<close>, so an exception there leaves the handler.
\<close>

definition receive_audio :: "(json \<Rightarrow> exn + bytes) \<Rightarrow> json \<Rightarrow> sys \<Rightarrow> http_result \<times> sys" where
  "receive_audio b64decode data s =
    (if \<not> web_online_mode s then
       (Inr (error_body ''Online mode is not active'', 400), s)
     else if \<not> truthy data then
       (Inr (error_body ''No audio_chunk provided'', 400), s)
     else case contains ''audio_chunk'' data of
       Inl e \<Rightarrow> (Inl e, s)
     | Inr False \<Rightarrow> (Inr (error_body ''No audio_chunk provided'', 400), s)
     | Inr True \<Rightarrow>
        (case getitem data ''audio_chunk'' of
           Inl e \<Rightarrow> (Inl e, s)
         | Inr audio_data_base64 \<Rightarrow>
            (case b64decode audio_data_base64 of
               Inl e \<Rightarrow>
                 (Inr (error_body (''Error decoding audio data: '' @ str_exn e), 400),
                  print (''Error decoding audio data: '' @ str_exn e) s)
             | Inr audio_data \<Rightarrow>
                 (Inr (JObj [(''status'', JStr ''success''),
                             (''message'', JStr ''Audio chunk received'')], 200),
                  cv_notify (s\<lparr>audio_chunk_queue := audio_chunk_queue s @ [audio_data]\<rparr>)))))"

text \<open>\<^verbatim>\<open>get_transcription\<close> (lines 119 to 126).\<close>

definition get_transcription :: "sys \<Rightarrow> http_result \<times> sys" where
  "get_transcription s =
    (let response = latest_transcription_result s
     in (Inr (response, 200), s\<lparr>latest_transcription_result := idle_result\<rparr>))"

text \<open>
  \<^verbatim>\<open>set_mode\<close> (lines 128 to 145). The function declares only \<^verbatim>\<open>global web_online_mode\<close>,
  so the assignment of line 143 binds a name local to the function: it is the
  \<open>local_latest_transcription_result\<close> below, and the module-level slot is not written.
  There is no call of \<^verbatim>\<open>notify\<close> in this function.
\<close>

definition set_mode :: "json \<Rightarrow> sys \<Rightarrow> http_result \<times> sys" where
  "set_mode data s =
    (if \<not> truthy data then
       (Inr (error_body ''No online_mode provided'', 400), s)
     else case contains ''online_mode'' data of
       Inl e \<Rightarrow> (Inl e, s)
     | Inr False \<Rightarrow> (Inr (error_body ''No online_mode provided'', 400), s)
     | Inr True \<Rightarrow>
        (case getitem data ''online_mode'' of
           Inl e \<Rightarrow> (Inl e, s)
         | Inr v \<Rightarrow>
            (let s1 = s\<lparr>web_online_mode := truthy v\<rparr>;
                 s2 = print (''Backend: Online mode set to ''
                        @ (if web_online_mode s1 then ''True'' else ''False'')) s1;
                 s3 = (if \<not> web_online_mode s2 then
                         (let s' = s2\<lparr>audio_chunk_queue := []\<rparr>;
                              local_latest_transcription_result = idle_result
                          in s')
                       else s2)
             in (Inr (JObj [(''status'', JStr ''success''),
                            (''online_mode'', JBool (web_online_mode s3))], 200), s3))))"

section \<open>The worker thread\<close>

text \<open>
  The lock block of lines 155 to 161, entered from the top of the loop or after a
  notification: the guard of the \<^verbatim>\<open>while\<close> sends the thread into \<^verbatim>\<open>wait()\<close>, or the block
  ends with \<^verbatim>\<open>pop(0)\<close> when the queue has an element.
\<close>

definition acquire_chunk :: "sys \<Rightarrow> sys" where
  "acquire_chunk s =
    (if audio_chunk_queue s = [] \<and> web_online_mode s then s\<lparr>worker := Waiting\<rparr>
     else case audio_chunk_queue s of
       [] \<Rightarrow> s\<lparr>worker := Got None\<rparr>
     | c # rest \<Rightarrow> s\<lparr>audio_chunk_queue := rest, worker := Got (Some c)\<rparr>)"

text \<open>
  Line 163 with its \<^verbatim>\<open>else\<close> of lines 196 and 197. A \<^verbatim>\<open>bytes\<close> object is true when it is
  not empty.
\<close>

definition dispatch :: "bytes option \<Rightarrow> sys \<Rightarrow> sys" where
  "dispatch current_audio_chunk s =
    (case current_audio_chunk of
       None \<Rightarrow> s\<lparr>worker := Sleeping 50\<rparr>
     | Some c \<Rightarrow>
        (if c \<noteq> [] \<and> web_online_mode s then s\<lparr>worker := Processing c\<rparr>
         else s\<lparr>worker := Sleeping 50\<rparr>))"

text \<open>
  Lines 166 to 195 and the outer handler of lines 199 to 201. \<open>decode_pcm\<close> is the pydub
  and \<^verbatim>\<open>sr.AudioFile\<close> stage of lines 166 to 179 (raw PCM to \<^verbatim>\<open>AudioData\<close>), which stands
  before the inner \<^verbatim>\<open>try\<close>; \<open>recognize_google\<close> is the call of line 183. Both are external
  and are parameters: each returns its value or raises.
\<close>

definition process ::
  "(bytes \<Rightarrow> exn + bytes) \<Rightarrow> (bytes \<Rightarrow> exn + string) \<Rightarrow> bytes \<Rightarrow> sys \<Rightarrow> sys" where
  "process decode_pcm recognize_google current_audio_chunk s =
    (case decode_pcm current_audio_chunk of
       Inl e \<Rightarrow>
         (print (''Error in transcription worker: '' @ str_exn e) s)\<lparr>worker := Sleeping 1000\<rparr>
     | Inr audio_data \<Rightarrow>
        (case recognize_google audio_data of
           Inr text \<Rightarrow>
             (print (''Backend Recognized (Google): '' @ text) s)
               \<lparr>latest_transcription_result := success_result text, worker := AtTop\<rparr>
         | Inl UnknownValueError \<Rightarrow> s\<lparr>worker := AtTop\<rparr>
         | Inl (RequestError m) \<Rightarrow>
             (print (''Could not request results from Google Speech Recognition service; ''
                       @ str_exn (RequestError m)) s)\<lparr>worker := AtTop\<rparr>
         | Inl (CouldntDecodeError m) \<Rightarrow>
             (print (''pydub could not decode audio chunk: ''
                       @ str_exn (CouldntDecodeError m)) s)\<lparr>worker := AtTop\<rparr>
         | Inl e \<Rightarrow>
             (print (''An unexpected error occurred during recognition: '' @ str_exn e) s)
               \<lparr>worker := AtTop\<rparr>))"

text \<open>
  One scheduling step of the worker thread. A thread blocked in \<^verbatim>\<open>wait()\<close> does not move
  until it is notified; a sleeping thread returns to the top of the loop.
\<close>

definition worker_step ::
  "(bytes \<Rightarrow> exn + bytes) \<Rightarrow> (bytes \<Rightarrow> exn + string) \<Rightarrow> sys \<Rightarrow> sys" where
  "worker_step decode_pcm recognize_google s =
    (case worker s of
       AtTop \<Rightarrow> acquire_chunk s
     | Notified \<Rightarrow> acquire_chunk s
     | Waiting \<Rightarrow> s
     | Got current_audio_chunk \<Rightarrow> dispatch current_audio_chunk s
     | Processing c \<Rightarrow> process decode_pcm recognize_google c s
     | Sleeping ms \<Rightarrow> s\<lparr>worker := AtTop\<rparr>)"

section \<open>Interleavings\<close>





subsection \<open>What enters and what leaves the queue\<close>





section \<open>Requests in flight\<close>

text \<open>
  Flask's development server answers every request in a thread of its own, and a
  handler holds a lock only around its queue operation. \<^verbatim>\<open>receive_audio\<close> reads
  \<^verbatim>\<open>web_online_mode\<close> on line 97 and takes the queue's lock on line 110; \<^verbatim>\<open>set_mode\<close>
  writes the flag on line 135, reads it again on lines 136, 139 and 145, and takes the
  lock on line 140. Another thread may run between any two of these accesses. A request
  in flight is described by the access it makes next.
\<close>

datatype req =
    AtAppend bytes
  | AtModePrint
  | AtModeTest
  | AtModeClear
  | AtModeReturn

datatype progress = Done http_result | Next req

text \<open>
  \<^verbatim>\<open>receive_audio\<close> from line 96 to line 107, with the \<^verbatim>\<open>except\<close> of lines 115 to 117: the
  mode is read once, the rest works on the request alone. A submission that gets
  through holds the decoded bytes and has the lock block of line 110 before it.
\<close>

definition receive_audio_admit ::
  "(json \<Rightarrow> exn + bytes) \<Rightarrow> json \<Rightarrow> sys \<Rightarrow> progress \<times> sys" where
  "receive_audio_admit b64decode data s =
    (if \<not> web_online_mode s then
       (Done (Inr (error_body ''Online mode is not active'', 400)), s)
     else if \<not> truthy data then
       (Done (Inr (error_body ''No audio_chunk provided'', 400)), s)
     else case contains ''audio_chunk'' data of
       Inl e \<Rightarrow> (Done (Inl e), s)
     | Inr False \<Rightarrow> (Done (Inr (error_body ''No audio_chunk provided'', 400)), s)
     | Inr True \<Rightarrow>
        (case getitem data ''audio_chunk'' of
           Inl e \<Rightarrow> (Done (Inl e), s)
         | Inr audio_data_base64 \<Rightarrow>
            (case b64decode audio_data_base64 of
               Inl e \<Rightarrow>
                 (Done (Inr (error_body (''Error decoding audio data: '' @ str_exn e), 400)),
                  print (''Error decoding audio data: '' @ str_exn e) s)
             | Inr audio_data \<Rightarrow> (Next (AtAppend audio_data), s))))"

text \<open>\<^verbatim>\<open>set_mode\<close> from line 130 to the write of the flag on line 135.\<close>

definition set_mode_write :: "json \<Rightarrow> sys \<Rightarrow> progress \<times> sys" where
  "set_mode_write data s =
    (if \<not> truthy data then
       (Done (Inr (error_body ''No online_mode provided'', 400)), s)
     else case contains ''online_mode'' data of
       Inl e \<Rightarrow> (Done (Inl e), s)
     | Inr False \<Rightarrow> (Done (Inr (error_body ''No online_mode provided'', 400)), s)
     | Inr True \<Rightarrow>
        (case getitem data ''online_mode'' of
           Inl e \<Rightarrow> (Done (Inl e), s)
         | Inr v \<Rightarrow> (Next AtModePrint, s\<lparr>web_online_mode := truthy v\<rparr>)))"

text \<open>
  The next access of a request in flight: the lock block of lines 110 to 112 and the
  \<^verbatim>\<open>return\<close> of line 114; the \<^verbatim>\<open>print\<close> of line 136; the test of line 139; the lock block
  of lines 140 and 141 with the local assignment of line 143; the \<^verbatim>\<open>return\<close> of line 145.
  Each of the last four reads the flag as it is at that moment.
\<close>

fun resume :: "req \<Rightarrow> sys \<Rightarrow> progress \<times> sys" where
  "resume (AtAppend audio_data) s =
     (Done (Inr (JObj [(''status'', JStr ''success''),
                       (''message'', JStr ''Audio chunk received'')], 200)),
      cv_notify (s\<lparr>audio_chunk_queue := audio_chunk_queue s @ [audio_data]\<rparr>))"
| "resume AtModePrint s =
     (Next AtModeTest,
      print (''Backend: Online mode set to ''
               @ (if web_online_mode s then ''True'' else ''False'')) s)"
| "resume AtModeTest s =
     (if \<not> web_online_mode s then (Next AtModeClear, s) else (Next AtModeReturn, s))"
| "resume AtModeClear s =
     (let s' = s\<lparr>audio_chunk_queue := []\<rparr>;
          local_latest_transcription_result = idle_result
      in (Next AtModeReturn, s'))"
| "resume AtModeReturn s =
     (Done (Inr (JObj [(''status'', JStr ''success''),
                       (''online_mode'', JBool (web_online_mode s))], 200)), s)"

text \<open>A request that runs on for up to \<open>n\<close> accesses with no other thread between.\<close>

fun finish :: "nat \<Rightarrow> progress \<times> sys \<Rightarrow> progress \<times> sys" where
  "finish 0 ps = ps"
| "finish (Suc n) (Done r, s) = (Done r, s)"
| "finish (Suc n) (Next q, s) = finish n (resume q s)"

text \<open>The shared variables together with the requests in flight, oldest first.\<close>

record server =
  shared :: sys
  in_flight :: "req list"

definition booted :: server where
  "booted = \<lparr> shared = initial, in_flight = [] \<rparr>"

text \<open>
  What can happen next: a request arrives and runs up to its first access, a request
  in flight makes its next access, or the worker makes a step.
\<close>

datatype arrival =
    AudioArrives json
  | ModeArrives json
  | PollArrives
  | RequestResumes nat
  | WorkerMoves "bytes \<Rightarrow> exn + string"

definition settle :: "req list \<Rightarrow> progress \<times> sys \<Rightarrow> server" where
  "settle others ps =
    (case fst ps of
       Done r \<Rightarrow> \<lparr> shared = snd ps, in_flight = others \<rparr>
     | Next q \<Rightarrow> \<lparr> shared = snd ps, in_flight = others @ [q] \<rparr>)"

definition resume_at :: "nat \<Rightarrow> server \<Rightarrow> server" where
  "resume_at i c =
    (if i < length (in_flight c) then
       (case fst (resume (in_flight c ! i) (shared c)) of
          Done r \<Rightarrow>
            \<lparr> shared = snd (resume (in_flight c ! i) (shared c)),
              in_flight = take i (in_flight c) @ drop (Suc i) (in_flight c) \<rparr>
        | Next q \<Rightarrow>
            \<lparr> shared = snd (resume (in_flight c ! i) (shared c)),
              in_flight = (in_flight c)[i := q] \<rparr>)
     else c)"

fun server_step ::
  "(json \<Rightarrow> exn + bytes) \<Rightarrow> (bytes \<Rightarrow> exn + bytes) \<Rightarrow> arrival \<Rightarrow> server \<Rightarrow> server" where
  "server_step b64decode decode_pcm (AudioArrives data) c =
     settle (in_flight c) (receive_audio_admit b64decode data (shared c))"
| "server_step b64decode decode_pcm (ModeArrives data) c =
     settle (in_flight c) (set_mode_write data (shared c))"
| "server_step b64decode decode_pcm PollArrives c =
     c\<lparr>shared := snd (get_transcription (shared c))\<rparr>"
| "server_step b64decode decode_pcm (RequestResumes i) c = resume_at i c"
| "server_step b64decode decode_pcm (WorkerMoves recognize_google) c =
     c\<lparr>shared := worker_step decode_pcm recognize_google (shared c)\<rparr>"

fun serve ::
  "(json \<Rightarrow> exn + bytes) \<Rightarrow> (bytes \<Rightarrow> exn + bytes) \<Rightarrow> arrival list \<Rightarrow> server \<Rightarrow> server" where
  "serve b64decode decode_pcm [] c = c"
| "serve b64decode decode_pcm (e # es) c =
     serve b64decode decode_pcm es (server_step b64decode decode_pcm e c)"

text \<open>
  A submission past the mode test; a mode request that has written the flag and has
  not yet passed its lock block; the chunks queued or held by submissions in flight.
\<close>

fun is_admitted :: "req \<Rightarrow> bool" where
  "is_admitted (AtAppend audio_data) = True"
| "is_admitted AtModePrint = False"
| "is_admitted AtModeTest = False"
| "is_admitted AtModeClear = False"
| "is_admitted AtModeReturn = False"

fun before_clear :: "req \<Rightarrow> bool" where
  "before_clear (AtAppend audio_data) = False"
| "before_clear AtModePrint = True"
| "before_clear AtModeTest = True"
| "before_clear AtModeClear = True"
| "before_clear AtModeReturn = False"

definition backlog :: "server \<Rightarrow> nat" where
  "backlog c = length (audio_chunk_queue (shared c)) + length (filter is_admitted (in_flight c))"

text \<open>
  A run is \<open>calm\<close> when no submission is past its mode test at any step that takes the
  mode from online to offline.
\<close>

fun calm ::
  "(json \<Rightarrow> exn + bytes) \<Rightarrow> (bytes \<Rightarrow> exn + bytes) \<Rightarrow> arrival list \<Rightarrow> server \<Rightarrow> bool" where
  "calm b64decode decode_pcm [] c = True"
| "calm b64decode decode_pcm (e # es) c =
     ((web_online_mode (shared c)
         \<and> \<not> web_online_mode (shared (server_step b64decode decode_pcm e c))
       \<longrightarrow> filter is_admitted (in_flight c) = [])
      \<and> calm b64decode decode_pcm es (server_step b64decode decode_pcm e c))"

text \<open>
  The condition that every step of a calm run keeps: while the mode is offline no
  submission is past its mode test, and a queue that is not empty has a mode request
  before its lock block.
\<close>

definition offline_settled :: "server \<Rightarrow> bool" where
  "offline_settled c =
    ((\<not> web_online_mode (shared c) \<longrightarrow> filter is_admitted (in_flight c) = [])
     \<and> (\<not> web_online_mode (shared c) \<and> audio_chunk_queue (shared c) \<noteq> []
        \<longrightarrow> list_ex before_clear (in_flight c)))"

section \<open>Sample collaborators and requests\<close>

text \<open>
  Concrete stand-ins for the three external functions, used to run the model on
  examples: a decoder that knows the base64 text of three short byte strings, a PCM
  stage that accepts every chunk and hands its bytes on, and a recogniser that hears a
  word in one chunk, nothing in another, and cannot reach its service for the rest.
\<close>

definition sample_b64decode :: "json \<Rightarrow> exn + bytes" where
  "sample_b64decode v =
    (case v of
       JStr s \<Rightarrow>
         (if s = ''AQI='' then Inr [1, 2]
          else if s = ''AAE='' then Inr [0, 1]
          else if s = ''AQ=='' then Inr [1]
          else Inl (Exception ''Incorrect padding''))
     | _ \<Rightarrow> Inl (TypeError ''argument should be a bytes-like object or ASCII string''))"

definition sample_decode_pcm :: "bytes \<Rightarrow> exn + bytes" where
  "sample_decode_pcm c = Inr c"

text \<open>
  The same PCM stage with one fault put in by hand: it raises for the chunk
  \<^verbatim>\<open>FF FF\<close> and accepts every other chunk. It stands for no behaviour of pydub; it is
  there to exercise the paths that a raising decode stage takes.
\<close>

definition faulty_decode_pcm :: "bytes \<Rightarrow> exn + bytes" where
  "faulty_decode_pcm c =
    (if c = [255, 255] then Inl (CouldntDecodeError ''fault put in by hand'') else Inr c)"

definition sample_recognizer :: "bytes \<Rightarrow> exn + string" where
  "sample_recognizer audio_data =
    (if audio_data = [1, 2] then Inr ''hello''
     else if audio_data = [0, 1] then Inl UnknownValueError
     else Inl (RequestError ''recognition connection failed''))"

definition mode_body :: "bool \<Rightarrow> json" where
  "mode_body b = JObj [(''online_mode'', JBool b)]"

definition chunk_body :: "string \<Rightarrow> json" where
  "chunk_body b64 = JObj [(''audio_chunk'', JStr b64)]"

text \<open>
  Three runs with overlapping requests. In the first a submission passes its mode test
  while online, a mode request then goes offline and runs to its end, and the
  submission appends afterwards. In the second the worker passes line 163 while online,
  a mode request goes offline and runs to its end, and the worker publishes afterwards.
  In the third a chunk is queued and a mode request has written the flag and done no
  more.
\<close>

definition racing_producer_run :: "arrival list" where
  "racing_producer_run =
    [ModeArrives (mode_body True), RequestResumes 0, RequestResumes 0, RequestResumes 0,
     AudioArrives (chunk_body ''AQI=''),
     ModeArrives (mode_body False), RequestResumes 1, RequestResumes 1, RequestResumes 1,
     RequestResumes 1,
     RequestResumes 0]"

definition late_publish_run :: "arrival list" where
  "late_publish_run =
    [ModeArrives (mode_body True), RequestResumes 0, RequestResumes 0, RequestResumes 0,
     AudioArrives (chunk_body ''AQI=''), RequestResumes 0,
     WorkerMoves sample_recognizer, WorkerMoves sample_recognizer,
     ModeArrives (mode_body False), RequestResumes 0, RequestResumes 0, RequestResumes 0,
     RequestResumes 0,
     WorkerMoves sample_recognizer]"

definition half_done_mode_run :: "arrival list" where
  "half_done_mode_run =
    [ModeArrives (mode_body True), RequestResumes 0, RequestResumes 0, RequestResumes 0,
     AudioArrives (chunk_body ''AQI=''), RequestResumes 0,
     ModeArrives (mode_body False)]"

text \<open>
  A run without overlap: the mode goes online, a chunk is submitted and queued, and a
  mode request goes offline and runs to its end.
\<close>

definition orderly_run :: "arrival list" where
  "orderly_run =
    [ModeArrives (mode_body True), RequestResumes 0, RequestResumes 0, RequestResumes 0,
     AudioArrives (chunk_body ''AQI=''), RequestResumes 0,
     ModeArrives (mode_body False), RequestResumes 0, RequestResumes 0, RequestResumes 0,
     RequestResumes 0]"

section \<open>Field lemmas\<close>

lemma print_fields [simp]:
  "web_online_mode (print l s) = web_online_mode s"
  "audio_chunk_queue (print l s) = audio_chunk_queue s"
  "latest_transcription_result (print l s) = latest_transcription_result s"
  "worker (print l s) = worker s"
  by (simp_all add: print_def)

lemma cv_notify_fields [simp]:
  "web_online_mode (cv_notify s) = web_online_mode s"
  "audio_chunk_queue (cv_notify s) = audio_chunk_queue s"
  "latest_transcription_result (cv_notify s) = latest_transcription_result s"
  by (simp_all add: cv_notify_def)

lemma process_fields [simp]:
  "web_online_mode (process d r c s) = web_online_mode s"
  "audio_chunk_queue (process d r c s) = audio_chunk_queue s"
  by (simp_all add: process_def split: sum.splits exn.splits)

lemma dispatch_fields [simp]:
  "web_online_mode (dispatch c s) = web_online_mode s"
  "audio_chunk_queue (dispatch c s) = audio_chunk_queue s"
  "latest_transcription_result (dispatch c s) = latest_transcription_result s"
  by (simp_all add: dispatch_def split: option.splits)

lemma acquire_chunk_online [simp]:
  "web_online_mode (acquire_chunk s) = web_online_mode s"
  by (simp add: acquire_chunk_def split: list.splits)

lemma worker_step_online [simp]:
  "web_online_mode (worker_step d r s) = web_online_mode s"
  by (simp add: worker_step_def split: wpc.splits)

lemma receive_audio_online [simp]:
  "web_online_mode (snd (receive_audio b data s)) = web_online_mode s"
  by (simp add: receive_audio_def split: sum.splits bool.splits)

lemma acquire_chunk_empty:
  "audio_chunk_queue s = [] \<Longrightarrow> audio_chunk_queue (acquire_chunk s) = []"
  by (simp add: acquire_chunk_def)

lemma worker_step_empty:
  "audio_chunk_queue s = [] \<Longrightarrow> audio_chunk_queue (worker_step d r s) = []"
  by (cases "worker s") (simp_all add: worker_step_def acquire_chunk_empty)

section \<open>Offline mode and the queue\<close>

text \<open>
  A request that no other thread interrupts does what the handler as a whole does.
\<close>

lemma receive_audio_uninterrupted:
  "finish (Suc 0) (receive_audio_admit b64decode data s)
     = (Done (fst (receive_audio b64decode data s)), snd (receive_audio b64decode data s))"
  by (simp add: receive_audio_admit_def receive_audio_def split: sum.splits bool.splits)

lemma set_mode_uninterrupted:
  "finish (Suc (Suc (Suc (Suc 0)))) (set_mode_write data s)
     = (Done (fst (set_mode data s)), snd (set_mode data s))"
  by (simp add: set_mode_write_def set_mode_def print_def Let_def
      split: sum.splits bool.splits)

lemma receive_audio_admit_fields [simp]:
  "web_online_mode (snd (receive_audio_admit b data s)) = web_online_mode s"
  "audio_chunk_queue (snd (receive_audio_admit b data s)) = audio_chunk_queue s"
  by (simp_all add: receive_audio_admit_def split: sum.splits bool.splits)

lemma receive_audio_admit_next:
  "fst (receive_audio_admit b data s) = Next q \<Longrightarrow> web_online_mode s \<and> is_admitted q"
  by (auto simp add: receive_audio_admit_def split: sum.splits bool.splits if_splits)

lemma set_mode_write_queue [simp]:
  "audio_chunk_queue (snd (set_mode_write data s)) = audio_chunk_queue s"
  by (simp add: set_mode_write_def split: sum.splits bool.splits)

lemma set_mode_write_done:
  "fst (set_mode_write data s) = Done r \<Longrightarrow> snd (set_mode_write data s) = s"
  by (auto simp add: set_mode_write_def split: sum.splits bool.splits if_splits)

lemma set_mode_write_next:
  "fst (set_mode_write data s) = Next q \<Longrightarrow> q = AtModePrint"
  by (auto simp add: set_mode_write_def split: sum.splits bool.splits if_splits)

lemma worker_step_queue_length:
  "length (audio_chunk_queue (worker_step d r s)) \<le> length (audio_chunk_queue s)"
  by (cases "worker s")
     (simp_all add: worker_step_def acquire_chunk_def split: list.splits)

lemma resume_at_split:
  assumes "i < length (in_flight c)"
  obtains pre x post where "in_flight c = pre @ x # post"
    and "resume_at i c =
      (case fst (resume x (shared c)) of
         Done r \<Rightarrow> \<lparr> shared = snd (resume x (shared c)), in_flight = pre @ post \<rparr>
       | Next q \<Rightarrow> \<lparr> shared = snd (resume x (shared c)), in_flight = pre @ q # post \<rparr>)"
proof
  show "in_flight c = take i (in_flight c) @ (in_flight c ! i) # drop (Suc i) (in_flight c)"
    using assms by (simp add: id_take_nth_drop)
  show "resume_at i c =
      (case fst (resume (in_flight c ! i) (shared c)) of
         Done r \<Rightarrow> \<lparr> shared = snd (resume (in_flight c ! i) (shared c)),
                     in_flight = take i (in_flight c) @ drop (Suc i) (in_flight c) \<rparr>
       | Next q \<Rightarrow> \<lparr> shared = snd (resume (in_flight c ! i) (shared c)),
                     in_flight = take i (in_flight c) @ q # drop (Suc i) (in_flight c) \<rparr>)"
    using assms by (simp add: resume_at_def upd_conv_take_nth_drop split: progress.splits)
qed

lemma settled_resume:
  assumes "offline_settled c" and "in_flight c = pre @ x # post"
  shows "offline_settled
      (case fst (resume x (shared c)) of
         Done r \<Rightarrow> \<lparr> shared = snd (resume x (shared c)), in_flight = pre @ post \<rparr>
       | Next q \<Rightarrow> \<lparr> shared = snd (resume x (shared c)), in_flight = pre @ q # post \<rparr>)"
  using assms by (cases x) (auto simp add: offline_settled_def Let_def)

lemma settled_step:
  assumes "offline_settled c"
    and "web_online_mode (shared c)
           \<and> \<not> web_online_mode (shared (server_step b d e c))
         \<longrightarrow> filter is_admitted (in_flight c) = []"
  shows "offline_settled (server_step b d e c)"
proof (cases e)
  case (AudioArrives data)
  show ?thesis
  proof (cases "fst (receive_audio_admit b data (shared c))")
    case (Done r)
    then show ?thesis using assms(1) AudioArrives
      by (simp add: offline_settled_def settle_def)
  next
    case (Next q)
    then have "web_online_mode (shared c)" by (simp add: receive_audio_admit_next)
    then show ?thesis using Next AudioArrives
      by (simp add: offline_settled_def settle_def)
  qed
next
  case (ModeArrives data)
  show ?thesis
  proof (cases "fst (set_mode_write data (shared c))")
    case (Done r)
    then show ?thesis using assms(1) ModeArrives
      by (simp add: offline_settled_def settle_def set_mode_write_done)
  next
    case (Next q)
    then have q: "q = AtModePrint" by (rule set_mode_write_next)
    have "\<not> web_online_mode (snd (set_mode_write data (shared c)))
          \<longrightarrow> filter is_admitted (in_flight c) = []"
      using assms Next ModeArrives by (auto simp add: offline_settled_def settle_def)
    then show ?thesis using Next q ModeArrives
      by (simp add: offline_settled_def settle_def)
  qed
next
  case PollArrives
  then show ?thesis using assms(1)
    by (simp add: offline_settled_def get_transcription_def)
next
  case (RequestResumes i)
  show ?thesis
  proof (cases "i < length (in_flight c)")
    case True
    then obtain pre x post where "in_flight c = pre @ x # post"
      and "resume_at i c =
        (case fst (resume x (shared c)) of
           Done r \<Rightarrow> \<lparr> shared = snd (resume x (shared c)), in_flight = pre @ post \<rparr>
         | Next q \<Rightarrow> \<lparr> shared = snd (resume x (shared c)), in_flight = pre @ q # post \<rparr>)"
      by (rule resume_at_split)
    then show ?thesis using assms(1) RequestResumes by (simp add: settled_resume)
  next
    case False
    then show ?thesis using assms(1) RequestResumes by (simp add: resume_at_def)
  qed
next
  case (WorkerMoves r)
  have "audio_chunk_queue (worker_step d r (shared c)) \<noteq> []
        \<Longrightarrow> audio_chunk_queue (shared c) \<noteq> []"
    using worker_step_empty [of "shared c" d r] by auto
  then show ?thesis using assms(1) WorkerMoves
    by (auto simp add: offline_settled_def)
qed

lemma settled_serve:
  "offline_settled c \<Longrightarrow> calm b d es c \<Longrightarrow> offline_settled (serve b d es c)"
proof (induction es arbitrary: c)
  case Nil
  then show ?case by simp
next
  case (Cons e es)
  from Cons.prems have "offline_settled (server_step b d e c)"
    by (intro settled_step) simp_all
  moreover from Cons.prems have "calm b d es (server_step b d e c)" by simp
  ultimately show ?case using Cons.IH by simp
qed

lemma backlog_resume:
  assumes "\<not> web_online_mode (shared c)" and "in_flight c = pre @ x # post"
  shows "backlog
      (case fst (resume x (shared c)) of
         Done r \<Rightarrow> \<lparr> shared = snd (resume x (shared c)), in_flight = pre @ post \<rparr>
       | Next q \<Rightarrow> \<lparr> shared = snd (resume x (shared c)), in_flight = pre @ q # post \<rparr>)
     \<le> backlog c"
  using assms by (cases x) (simp_all add: backlog_def Let_def)

lemma backlog_step:
  assumes "\<not> web_online_mode (shared c)"
  shows "backlog (server_step b d e c) \<le> backlog c"
proof (cases e)
  case (AudioArrives data)
  then show ?thesis using assms
    by (simp add: backlog_def settle_def receive_audio_admit_def)
next
  case (ModeArrives data)
  show ?thesis
  proof (cases "fst (set_mode_write data (shared c))")
    case (Done r)
    then show ?thesis using ModeArrives by (simp add: backlog_def settle_def)
  next
    case (Next q)
    then have "q = AtModePrint" by (rule set_mode_write_next)
    then show ?thesis using Next ModeArrives by (simp add: backlog_def settle_def)
  qed
next
  case PollArrives
  then show ?thesis by (simp add: backlog_def get_transcription_def)
next
  case (RequestResumes i)
  show ?thesis
  proof (cases "i < length (in_flight c)")
    case True
    then obtain pre x post where "in_flight c = pre @ x # post"
      and "resume_at i c =
        (case fst (resume x (shared c)) of
           Done r \<Rightarrow> \<lparr> shared = snd (resume x (shared c)), in_flight = pre @ post \<rparr>
         | Next q \<Rightarrow> \<lparr> shared = snd (resume x (shared c)), in_flight = pre @ q # post \<rparr>)"
      by (rule resume_at_split)
    then show ?thesis using assms RequestResumes by (simp add: backlog_resume)
  next
    case False
    then show ?thesis using RequestResumes by (simp add: resume_at_def)
  qed
next
  case (WorkerMoves r)
  then show ?thesis using worker_step_queue_length [of d r "shared c"]
    by (simp add: backlog_def)
qed

text \<open>
  Claim C1, as the code has it, with requests interleaved at every access to the shared
  variables. First, whatever the interleaving: a step taken while the mode is offline
  admits no submission, so the number of chunks that are queued or held by submissions
  in flight does not grow. Second, along every run from the start in which no
  submission is past its mode test when the mode goes from online to offline: if the
  mode is offline and no mode request stands between its write of the flag and its
  lock block, the chunk queue is empty. Nothing is said about the result slot.
\<close>

theorem offline_queue_under_interleaving:
  "(\<not> web_online_mode (shared c)
      \<longrightarrow> backlog (server_step b64decode decode_pcm e c) \<le> backlog c)
   \<and> (calm b64decode decode_pcm es booted
       \<and> \<not> web_online_mode (shared (serve b64decode decode_pcm es booted))
       \<and> \<not> list_ex before_clear (in_flight (serve b64decode decode_pcm es booted))
      \<longrightarrow> audio_chunk_queue (shared (serve b64decode decode_pcm es booted)) = [])"
proof -
  have start: "offline_settled booted"
    by (simp add: offline_settled_def booted_def initial_def)
  have "calm b64decode decode_pcm es booted
        \<Longrightarrow> offline_settled (serve b64decode decode_pcm es booted)"
    using start by (rule settled_serve)
  then show ?thesis
    by (auto simp add: backlog_step offline_settled_def)
qed

text \<open>
  A submission that arrives while offline is turned away, and the run without overlap
  ends offline with the queued chunk cleared.
\<close>

theorem offline_queue_under_interleaving_witness:
  "\<not> web_online_mode (shared booted)
   \<and> backlog (server_step sample_b64decode sample_decode_pcm
        (AudioArrives (chunk_body ''AQI='')) booted) \<le> backlog booted
   \<and> calm sample_b64decode sample_decode_pcm orderly_run booted
   \<and> \<not> web_online_mode (shared (serve sample_b64decode sample_decode_pcm orderly_run booted))
   \<and> \<not> list_ex before_clear
        (in_flight (serve sample_b64decode sample_decode_pcm orderly_run booted))
   \<and> audio_chunk_queue (shared (serve sample_b64decode sample_decode_pcm orderly_run booted))
       = []"
  using offline_queue_under_interleaving
    [of booted sample_b64decode sample_decode_pcm "AudioArrives (chunk_body ''AQI='')"
        orderly_run]
  by (simp add: orderly_run_def booted_def initial_def settle_def resume_at_def
      receive_audio_admit_def set_mode_write_def print_def cv_notify_def
      mode_body_def chunk_body_def sample_b64decode_def)

text \<open>
  Claim C1 as stated fails, in both halves. A submission that passed the mode test of
  line 97 while online appends on line 111 after a mode request has gone offline and
  cleared the queue: the run ends offline with a chunk in the queue and no request in
  flight. The worker passes line 163 while online and publishes on line 186 after the
  mode has gone offline: the run ends offline and a poll returns a success. And a mode
  request that has written the flag on line 135 has not yet cleared the queue.
\<close>

theorem offline_invariant_fails_under_overlap:
  "\<not> web_online_mode
       (shared (serve sample_b64decode sample_decode_pcm racing_producer_run booted))
   \<and> audio_chunk_queue
       (shared (serve sample_b64decode sample_decode_pcm racing_producer_run booted))
       = [[1, 2]]
   \<and> in_flight (serve sample_b64decode sample_decode_pcm racing_producer_run booted) = []
   \<and> \<not> web_online_mode
       (shared (serve sample_b64decode sample_decode_pcm late_publish_run booted))
   \<and> fst (get_transcription
       (shared (serve sample_b64decode sample_decode_pcm late_publish_run booted)))
       = Inr (success_result ''hello'', 200)
   \<and> \<not> web_online_mode
       (shared (serve sample_b64decode sample_decode_pcm half_done_mode_run booted))
   \<and> audio_chunk_queue
       (shared (serve sample_b64decode sample_decode_pcm half_done_mode_run booted))
       = [[1, 2]]"
  by (simp add: racing_producer_run_def late_publish_run_def half_done_mode_run_def
      booted_def initial_def settle_def resume_at_def receive_audio_admit_def
      set_mode_write_def get_transcription_def print_def cv_notify_def mode_body_def
      chunk_body_def sample_b64decode_def sample_decode_pcm_def sample_recognizer_def
      worker_step_def acquire_chunk_def dispatch_def process_def)

section \<open>First in, first out\<close>





section \<open>The poll\<close>

text \<open>
  Claim C3. A poll returns the slot as it is, with status 200, and leaves the slot idle
  in the same operation, changing nothing else. A second poll that follows with no
  worker step between returns the idle value, which is not a success: no success is
  returned by two polls.
\<close>

theorem poll_is_destructive:
  "fst (get_transcription s) = Inr (latest_transcription_result s, 200)
   \<and> snd (get_transcription s) = s\<lparr>latest_transcription_result := idle_result\<rparr>
   \<and> get_transcription (snd (get_transcription s))
       = (Inr (idle_result, 200), snd (get_transcription s))
   \<and> idle_result \<noteq> success_result t"
  by (simp add: get_transcription_def idle_result_def success_result_def)

section \<open>The mode request\<close>

lemma set_mode_keeps_result:
  "latest_transcription_result (snd (set_mode data s)) = latest_transcription_result s"
  by (simp add: set_mode_def Let_def split: sum.splits bool.splits)

lemma set_mode_keeps_worker:
  "worker (snd (set_mode data s)) = worker s"
  by (simp add: set_mode_def Let_def split: sum.splits bool.splits)

text \<open>
  Claim C4 says that a mode request with \<^verbatim>\<open>online_mode\<close> false leaves the queue empty
  and the slot idle. The code at an online state with one queued chunk and a success in
  the slot: the queue is emptied, the slot still holds the success. The assignment of
  line 143 is to a local name, as \<open>set_mode_keeps_result\<close> shows for every request.
\<close>

theorem set_mode_offline_keeps_result:
  "snd (set_mode (mode_body False)
         \<lparr> web_online_mode = True, audio_chunk_queue = [[1, 2]],
           latest_transcription_result = success_result ''hello'',
           worker = AtTop, stdout = [] \<rparr>)
   = \<lparr> web_online_mode = False, audio_chunk_queue = [],
       latest_transcription_result = success_result ''hello'',
       worker = AtTop, stdout = [''Backend: Online mode set to False''] \<rparr>"
  by (simp add: set_mode_def print_def mode_body_def)

text \<open>
  Claim C10. When the body is an object that has the key \<^verbatim>\<open>online_mode\<close> with value
  \<open>v\<close>, the request stores and echoes Python's \<^verbatim>\<open>bool(v)\<close>. A true \<open>v\<close> puts the mode
  online and leaves the queue as it is; a false \<open>v\<close> puts it offline, empties the queue
  and ends in the very state that the literal \<^verbatim>\<open>false\<close> ends in. The string
  \<^verbatim>\<open>"false"\<close> is true; \<^verbatim>\<open>false\<close>, \<^verbatim>\<open>0\<close>, the empty string and \<^verbatim>\<open>null\<close> are false.
\<close>

theorem set_mode_coerces_truthiness:
  assumes "map_of kvs ''online_mode'' = Some v"
  shows "fst (set_mode (JObj kvs) s)
           = Inr (JObj [(''status'', JStr ''success''), (''online_mode'', JBool (truthy v))], 200)
       \<and> web_online_mode (snd (set_mode (JObj kvs) s)) = truthy v
       \<and> (if truthy v
          then audio_chunk_queue (snd (set_mode (JObj kvs) s)) = audio_chunk_queue s
          else audio_chunk_queue (snd (set_mode (JObj kvs) s)) = []
             \<and> snd (set_mode (JObj kvs) s) = snd (set_mode (mode_body False) s))
       \<and> truthy (JStr ''false'') \<and> \<not> truthy (JBool False) \<and> \<not> truthy (JInt 0)
       \<and> \<not> truthy (JStr []) \<and> \<not> truthy JNull"
proof -
  from assms have ne: "kvs \<noteq> []" by auto
  show ?thesis using assms ne
    by (simp add: set_mode_def print_def Let_def mode_body_def)
qed

text \<open>The body \<^verbatim>\<open>{"online_mode": "false"}\<close> switches the mode on.\<close>

theorem set_mode_coerces_truthiness_witness:
  "map_of [(''online_mode'', JStr ''false'')] ''online_mode'' = Some (JStr ''false'')
   \<and> fst (set_mode (JObj [(''online_mode'', JStr ''false'')]) initial)
       = Inr (JObj [(''status'', JStr ''success''), (''online_mode'', JBool True)], 200)
   \<and> web_online_mode (snd (set_mode (JObj [(''online_mode'', JStr ''false'')]) initial))"
  using set_mode_coerces_truthiness
    [of "[(''online_mode'', JStr ''false'')]" "JStr ''false''" initial]
  by simp

section \<open>The submission\<close>

text \<open>
  For a body that is a JSON object the handler answers 400 and leaves the queue as it
  is when the mode is offline, the key is absent or the decoder raises; otherwise it
  answers 200 and appends the decoded bytes.
\<close>

lemma receive_audio_object_body:
  "(status_code (fst (receive_audio b64decode (JObj kvs) s)) = 400
      \<and> audio_chunk_queue (snd (receive_audio b64decode (JObj kvs) s)) = audio_chunk_queue s
      \<and> (\<not> web_online_mode s \<or> map_of kvs ''audio_chunk'' = None
         \<or> (\<exists>v e. map_of kvs ''audio_chunk'' = Some v \<and> b64decode v = Inl e)))
   \<or> (\<exists>v c. web_online_mode s \<and> map_of kvs ''audio_chunk'' = Some v \<and> b64decode v = Inr c
        \<and> fst (receive_audio b64decode (JObj kvs) s)
            = Inr (JObj [(''status'', JStr ''success''),
                         (''message'', JStr ''Audio chunk received'')], 200)
        \<and> audio_chunk_queue (snd (receive_audio b64decode (JObj kvs) s))
            = audio_chunk_queue s @ [c])"
proof (cases "web_online_mode s")
  case False
  then show ?thesis by (simp add: receive_audio_def)
next
  case True
  show ?thesis
  proof (cases "map_of kvs ''audio_chunk''")
    case None
    then show ?thesis using True by (simp add: receive_audio_def)
  next
    case (Some v)
    then have "kvs \<noteq> []" by auto
    then show ?thesis using True Some
      by (cases "b64decode v") (simp_all add: receive_audio_def)
  qed
qed

text \<open>
  Claim C9 says that a submission without the \<^verbatim>\<open>audio_chunk\<close> field is answered with
  400. The code, online, at the JSON body \<^verbatim>\<open>5\<close>: the test \<^verbatim>\<open>'audio_chunk' not in data\<close>
  of line 101 raises \<^verbatim>\<open>TypeError\<close>, which leaves the handler, and the answer is 500. At
  the body \<^verbatim>\<open>["audio_chunk"]\<close> the test passes and line 104 raises. The state is
  unchanged both times.
\<close>

theorem receive_audio_non_object_body:
  "receive_audio sample_b64decode (JInt 5) (initial\<lparr>web_online_mode := True\<rparr>)
     = (Inl (TypeError ''argument is not iterable''), initial\<lparr>web_online_mode := True\<rparr>)
   \<and> status_code (fst (receive_audio sample_b64decode (JInt 5)
        (initial\<lparr>web_online_mode := True\<rparr>))) = 500
   \<and> receive_audio sample_b64decode (JArr [JStr ''audio_chunk''])
        (initial\<lparr>web_online_mode := True\<rparr>)
     = (Inl (TypeError ''list indices must be integers or slices, not str''),
        initial\<lparr>web_online_mode := True\<rparr>)"
  by (simp add: receive_audio_def initial_def)

section \<open>The worker and failing chunks\<close>

text \<open>
  Claim C5. A chunk is dequeued and its decoding raises. The decoding stands before the
  inner \<^verbatim>\<open>try\<close>, so the handler of line 199 catches the exception: one line is logged,
  the slot and the queue are as they were, so the chunk is dropped and nothing is
  published, and the worker sleeps one second and is back at the top of its loop with
  nothing else changed. A well-formed chunk that waits in the queue while the mode is
  online is then taken out, recognised and published.
\<close>

theorem decode_failure_is_logged_and_dropped:
  assumes "decode_pcm c = Inl e"
  shows "process decode_pcm recognize_google c s
           = (print (''Error in transcription worker: '' @ str_exn e) s)
               \<lparr>worker := Sleeping 1000\<rparr>
       \<and> latest_transcription_result (process decode_pcm recognize_google c s)
           = latest_transcription_result s
       \<and> audio_chunk_queue (process decode_pcm recognize_google c s) = audio_chunk_queue s
       \<and> stdout (process decode_pcm recognize_google c s)
           = stdout s @ [''Error in transcription worker: '' @ str_exn e]
       \<and> worker_step decode_pcm recognize_next (process decode_pcm recognize_google c s)
           = (print (''Error in transcription worker: '' @ str_exn e) s)\<lparr>worker := AtTop\<rparr>
       \<and> (web_online_mode s \<and> audio_chunk_queue s = c' # rest \<and> c' \<noteq> []
            \<and> decode_pcm c' = Inr audio_data \<and> recognize_next audio_data = Inr text
          \<longrightarrow> latest_transcription_result
                ((worker_step decode_pcm recognize_next ^^ 4)
                   (process decode_pcm recognize_google c s)) = success_result text
            \<and> audio_chunk_queue
                ((worker_step decode_pcm recognize_next ^^ 4)
                   (process decode_pcm recognize_google c s)) = rest
            \<and> worker
                ((worker_step decode_pcm recognize_next ^^ 4)
                   (process decode_pcm recognize_google c s)) = AtTop)"
proof -
  let ?line = "''Error in transcription worker: '' @ str_exn e"
  have caught: "process decode_pcm recognize_google c s
                  = (print ?line s)\<lparr>worker := Sleeping 1000\<rparr>"
    using assms by (simp add: process_def)
  have woken: "worker_step decode_pcm recognize_next ((print ?line s)\<lparr>worker := Sleeping 1000\<rparr>)
                 = (print ?line s)\<lparr>worker := AtTop\<rparr>"
    by (simp add: worker_step_def)
  have "next": "web_online_mode s \<and> audio_chunk_queue s = c' # rest \<and> c' \<noteq> []
            \<and> decode_pcm c' = Inr audio_data \<and> recognize_next audio_data = Inr text
      \<longrightarrow> worker_step decode_pcm recognize_next
            (worker_step decode_pcm recognize_next
              (worker_step decode_pcm recognize_next ((print ?line s)\<lparr>worker := AtTop\<rparr>)))
          = (print (''Backend Recognized (Google): '' @ text) (print ?line s))
              \<lparr>audio_chunk_queue := rest,
               latest_transcription_result := success_result text, worker := AtTop\<rparr>"
    by (simp add: worker_step_def acquire_chunk_def dispatch_def process_def print_def)
  show ?thesis
    using caught woken "next" by (simp add: numeral_eq_Suc print_def)
qed

text \<open>
  The decode stage with the fault put in: the chunk \<^verbatim>\<open>FF FF\<close> is dropped with one line
  logged, and the chunk \<^verbatim>\<open>01 02\<close> behind it is recognised.
\<close>

theorem decode_failure_is_logged_and_dropped_witness:
  "faulty_decode_pcm [255, 255] = Inl (CouldntDecodeError ''fault put in by hand'')
   \<and> process faulty_decode_pcm sample_recognizer [255, 255]
       \<lparr> web_online_mode = True, audio_chunk_queue = [[1, 2]],
         latest_transcription_result = idle_result, worker = Processing [255, 255],
         stdout = [] \<rparr>
     = \<lparr> web_online_mode = True, audio_chunk_queue = [[1, 2]],
         latest_transcription_result = idle_result, worker = Sleeping 1000,
         stdout = [''Error in transcription worker: fault put in by hand''] \<rparr>
   \<and> latest_transcription_result
       ((worker_step faulty_decode_pcm sample_recognizer ^^ 4)
          (process faulty_decode_pcm sample_recognizer [255, 255]
             \<lparr> web_online_mode = True, audio_chunk_queue = [[1, 2]],
               latest_transcription_result = idle_result, worker = Processing [255, 255],
               stdout = [] \<rparr>))
     = success_result ''hello''"
proof -
  have four: "(f ^^ 4) x = f (f (f (f x)))" for f :: "sys \<Rightarrow> sys" and x
    by (simp add: numeral_eq_Suc)
  show ?thesis
    using decode_failure_is_logged_and_dropped
      [of faulty_decode_pcm "[255, 255]" "CouldntDecodeError ''fault put in by hand''"
          sample_recognizer
          "\<lparr> web_online_mode = True, audio_chunk_queue = [[1, 2]],
             latest_transcription_result = idle_result, worker = Processing [255, 255],
             stdout = [] \<rparr>"
          sample_recognizer "[1, 2]" "[]" "[1, 2]" "''hello''"]
    by (simp add: faulty_decode_pcm_def sample_recognizer_def print_def four
        process_def worker_step_def acquire_chunk_def dispatch_def)
qed

text \<open>
  Claim C8. A chunk is decoded and the recogniser raises \<^verbatim>\<open>UnknownValueError\<close> or
  \<^verbatim>\<open>RequestError\<close>: the worker returns to the top of its loop with the slot and the queue
  as they were, so nothing is published and the chunk is not put back; the first case
  prints nothing, the second prints one line; and the next step of the worker is the
  lock block, which takes the next chunk.
\<close>

theorem recognition_failure_publishes_nothing:
  assumes "decode_pcm c = Inr audio_data"
    and "recognize_google audio_data = Inl e"
    and "e = UnknownValueError \<or> e = RequestError m"
  shows "process decode_pcm recognize_google c s
           = s\<lparr>worker := AtTop,
               stdout := (if e = UnknownValueError then stdout s
                          else stdout s @ [''Could not request results from Google Speech Recognition service; '' @ m])\<rparr>
         \<and> latest_transcription_result (process decode_pcm recognize_google c s)
             = latest_transcription_result s
         \<and> audio_chunk_queue (process decode_pcm recognize_google c s) = audio_chunk_queue s
         \<and> worker_step decode_pcm recognize_next (process decode_pcm recognize_google c s)
             = acquire_chunk (process decode_pcm recognize_google c s)"
  using assms by (auto simp add: process_def print_def worker_step_def)

text \<open>A chunk that is not understood, and a chunk for which the service is not reached.\<close>

theorem recognition_failure_publishes_nothing_witness:
  "sample_decode_pcm [0, 1] = Inr [0, 1]
   \<and> sample_recognizer [0, 1] = Inl UnknownValueError
   \<and> process sample_decode_pcm sample_recognizer [0, 1]
        (initial\<lparr>web_online_mode := True, worker := Processing [0, 1]\<rparr>)
      = initial\<lparr>web_online_mode := True\<rparr>
   \<and> sample_decode_pcm [3, 4] = Inr [3, 4]
   \<and> sample_recognizer [3, 4] = Inl (RequestError ''recognition connection failed'')
   \<and> process sample_decode_pcm sample_recognizer [3, 4]
        (initial\<lparr>web_online_mode := True, worker := Processing [3, 4]\<rparr>)
      = initial\<lparr>web_online_mode := True,
          stdout := [''Could not request results from Google Speech Recognition service; recognition connection failed'']\<rparr>"
  using recognition_failure_publishes_nothing
     [of sample_decode_pcm "[0, 1]" "[0, 1]" sample_recognizer UnknownValueError "[]"
         "initial\<lparr>web_online_mode := True, worker := Processing [0, 1]\<rparr>" sample_recognizer]
    recognition_failure_publishes_nothing
     [of sample_decode_pcm "[3, 4]" "[3, 4]" sample_recognizer
         "RequestError ''recognition connection failed''" "''recognition connection failed''"
         "initial\<lparr>web_online_mode := True, worker := Processing [3, 4]\<rparr>" sample_recognizer]
  by (simp add: sample_decode_pcm_def sample_recognizer_def initial_def)

section \<open>Waiting, waking and sleeping\<close>

text \<open>
  Claim C6 as stated fails: \<^verbatim>\<open>set_mode\<close> does not notify the condition. A worker
  blocked in \<^verbatim>\<open>wait()\<close> while the mode goes offline is still blocked after the request, and
  its next step does not move it.
\<close>

theorem mode_change_leaves_consumer_blocked:
  "worker (snd (set_mode (mode_body False)
      (initial\<lparr>web_online_mode := True, worker := Waiting\<rparr>))) = Waiting
   \<and> worker (worker_step sample_decode_pcm sample_recognizer
       (snd (set_mode (mode_body False)
          (initial\<lparr>web_online_mode := True, worker := Waiting\<rparr>)))) = Waiting"
  by (simp add: set_mode_def print_def mode_body_def initial_def worker_step_def)

text \<open>
  Claim C6, as the code has it. A submission answered with 200 notifies the condition:
  a worker blocked in \<^verbatim>\<open>wait()\<close> is woken, finds the queue not empty, and its next step
  is the lock block. A mode request, whatever its body, leaves the worker where it is:
  a blocked worker stays blocked across it.
\<close>

theorem enqueue_signals_mode_change_does_not:
  "(worker s = Waiting \<and> status_code (fst (receive_audio b64decode data s)) = 200
      \<longrightarrow> worker (snd (receive_audio b64decode data s)) = Notified
        \<and> audio_chunk_queue (snd (receive_audio b64decode data s)) \<noteq> []
        \<and> worker_step decode_pcm recognize_google (snd (receive_audio b64decode data s))
            = acquire_chunk (snd (receive_audio b64decode data s)))
   \<and> worker (snd (set_mode mode_data s)) = worker s
   \<and> (worker s = Waiting
      \<longrightarrow> worker_step decode_pcm recognize_google (snd (set_mode mode_data s))
            = snd (set_mode mode_data s))"
proof -
  have a: "worker s = Waiting \<and> status_code (fst (receive_audio b64decode data s)) = 200
      \<longrightarrow> worker (snd (receive_audio b64decode data s)) = Notified
        \<and> audio_chunk_queue (snd (receive_audio b64decode data s)) \<noteq> []"
    by (simp add: receive_audio_def cv_notify_def split: sum.splits bool.splits)
  have b: "worker (snd (set_mode mode_data s)) = worker s"
    by (rule set_mode_keeps_worker)
  have c: "worker t = Notified \<Longrightarrow> worker_step decode_pcm recognize_google t = acquire_chunk t"
    for t by (simp add: worker_step_def)
  have d: "worker t = Waiting \<Longrightarrow> worker_step decode_pcm recognize_google t = t"
    for t by (simp add: worker_step_def)
  show ?thesis using a b c d by simp
qed

text \<open>A blocked worker, one accepted chunk, and one request to go offline.\<close>

theorem enqueue_signals_mode_change_does_not_witness:
  "worker (initial\<lparr>web_online_mode := True, worker := Waiting\<rparr>) = Waiting
   \<and> status_code (fst (receive_audio sample_b64decode (chunk_body ''AQI='')
        (initial\<lparr>web_online_mode := True, worker := Waiting\<rparr>))) = 200
   \<and> worker (snd (receive_audio sample_b64decode (chunk_body ''AQI='')
        (initial\<lparr>web_online_mode := True, worker := Waiting\<rparr>))) = Notified
   \<and> worker (snd (set_mode (mode_body False)
        (initial\<lparr>web_online_mode := True, worker := Waiting\<rparr>))) = Waiting"
  using enqueue_signals_mode_change_does_not
    [of "initial\<lparr>web_online_mode := True, worker := Waiting\<rparr>" sample_b64decode
        "chunk_body ''AQI=''" sample_decode_pcm sample_recognizer "mode_body False"]
  by (simp add: receive_audio_def chunk_body_def sample_b64decode_def initial_def)

text \<open>
  Claim C7 as stated fails. In the initial state the mode is offline and the queue is
  empty: the guard of line 157 is false, the worker does not wait, takes the \<^verbatim>\<open>else\<close> of
  line 196, sleeps 50 milliseconds and is back at the top of the loop in the same
  state, where the same happens again.
\<close>

theorem offline_worker_sleeps_and_polls:
  "worker_step sample_decode_pcm sample_recognizer initial = initial\<lparr>worker := Got None\<rparr>
   \<and> worker_step sample_decode_pcm sample_recognizer
       (worker_step sample_decode_pcm sample_recognizer initial)
     = initial\<lparr>worker := Sleeping 50\<rparr>
   \<and> worker_step sample_decode_pcm sample_recognizer
       (worker_step sample_decode_pcm sample_recognizer
         (worker_step sample_decode_pcm sample_recognizer initial))
     = initial"
  by (simp add: worker_step_def acquire_chunk_def dispatch_def initial_def)

text \<open>
  Claim C7, as the code has it. A worker that enters the lock block suspends in
  \<^verbatim>\<open>wait()\<close> exactly when the queue is empty and the mode is online. When the mode is
  offline and the queue is empty it leaves the block without a chunk, sleeps 50
  milliseconds and returns to the top of the loop with the shared state unchanged. The
  sleep of 50 milliseconds is taken exactly when the worker holds no chunk, holds an
  empty chunk, or finds the mode offline.
\<close>

theorem worker_waits_only_while_online:
  assumes "worker s = AtTop \<or> worker s = Notified"
  shows "(worker (worker_step decode_pcm recognize_google s) = Waiting)
           = (audio_chunk_queue s = [] \<and> web_online_mode s)
       \<and> (\<not> web_online_mode s \<and> audio_chunk_queue s = [] \<longrightarrow>
            worker_step decode_pcm recognize_google s = s\<lparr>worker := Got None\<rparr>
          \<and> worker_step decode_pcm recognize_google
              (worker_step decode_pcm recognize_google s) = s\<lparr>worker := Sleeping 50\<rparr>
          \<and> worker_step decode_pcm recognize_google
              (worker_step decode_pcm recognize_google
                (worker_step decode_pcm recognize_google s)) = s\<lparr>worker := AtTop\<rparr>)
       \<and> (worker (dispatch current_audio_chunk s) = Sleeping 50)
           = (current_audio_chunk = None \<or> current_audio_chunk = Some []
              \<or> \<not> web_online_mode s)"
proof -
  have first: "worker_step decode_pcm recognize_google s = acquire_chunk s"
    using assms by (auto simp add: worker_step_def)
  have wait: "(worker (acquire_chunk s) = Waiting)
                = (audio_chunk_queue s = [] \<and> web_online_mode s)"
    by (simp add: acquire_chunk_def split: list.splits)
  have poll: "\<not> web_online_mode s \<and> audio_chunk_queue s = [] \<longrightarrow>
      acquire_chunk s = s\<lparr>worker := Got None\<rparr>
      \<and> worker_step decode_pcm recognize_google (s\<lparr>worker := Got None\<rparr>)
          = s\<lparr>worker := Sleeping 50\<rparr>
      \<and> worker_step decode_pcm recognize_google (s\<lparr>worker := Sleeping 50\<rparr>)
          = s\<lparr>worker := AtTop\<rparr>"
    by (simp add: acquire_chunk_def worker_step_def dispatch_def)
  have sleep: "(worker (dispatch current_audio_chunk s) = Sleeping 50)
           = (current_audio_chunk = None \<or> current_audio_chunk = Some []
              \<or> \<not> web_online_mode s)"
    by (cases current_audio_chunk) (simp_all add: dispatch_def)
  show ?thesis using first wait poll sleep by simp
qed

text \<open>The worker at the top of its loop in the initial state, offline with no chunk.\<close>

theorem worker_waits_only_while_online_witness:
  "(worker initial = AtTop \<or> worker initial = Notified)
   \<and> \<not> web_online_mode initial \<and> audio_chunk_queue initial = []
   \<and> worker (worker_step sample_decode_pcm sample_recognizer initial) \<noteq> Waiting
   \<and> worker_step sample_decode_pcm sample_recognizer
       (worker_step sample_decode_pcm sample_recognizer initial)
     = initial\<lparr>worker := Sleeping 50\<rparr>"
  using worker_waits_only_while_online
    [of initial sample_decode_pcm sample_recognizer None]
  by (simp add: initial_def worker_step_def acquire_chunk_def dispatch_def)

end
